theory Spec2Isabelle
  imports Complex_Main "HOL-Library.Multiset"
begin

section \<open>Format model\<close>

text \<open>
  The entities of \<^verbatim>\<open>src/types/index.js\<close>. A JavaScript number that holds a beat position
  is modelled as an exact rational (beat positions are rationals \<open>ticks/1024\<close>), a number
  that holds a count, a tick value or a level as an integer. An optional field
  (\<^verbatim>\<open>undefined\<close> or \<^verbatim>\<open>null\<close>) is an \<open>option\<close>.
\<close>

record pitch =
  step :: string
  octave :: int
  alter :: int

record tuplet =
  actual :: int
  normal :: int

record duration =
  type :: string
  dots :: nat
  ticks :: int
  tuplet :: "tuplet option"

text \<open>The fields a note and a rest share; the field \<^verbatim>\<open>id\<close> is named \<open>note_id\<close>.\<close>

record element =
  note_id :: string
  duration :: duration
  startBeat :: rat
  voice :: int
  staff :: int

type_synonym rest = element

record "note" = element +
  pitch :: "pitch option"
  tiedTo :: "string option"
  slurredWith :: "string list option"
  isLocked :: bool
  lockReason :: "string option"
  embellishment :: "string option"
  voicePart :: "string option"
  hadEmbellishment :: "string option"

record measure =
  number :: int
  "notes" :: "note list"
  rests :: "rest list"

record timeSignature =
  beats :: int
  beatType :: int
  ts_type :: string

record keySignature =
  fifths :: int
  mode :: string

record scoreMetadata =
  title :: string
  composer :: string
  tempo :: int
  timeSignature :: timeSignature
  keySignature :: keySignature
  clefs :: "string list"
  textAnnotations :: "string list"

subsection \<open>JavaScript primitives\<close>

text \<open>Truthiness of an optional string: \<^verbatim>\<open>undefined\<close>, \<^verbatim>\<open>null\<close> and \<^verbatim>\<open>''\<close> are falsy.\<close>

definition truthy :: "string option \<Rightarrow> bool" where
  "truthy s = (case s of None \<Rightarrow> False | Some t \<Rightarrow> t \<noteq> [])"

text \<open>Truthiness of an optional number: \<^verbatim>\<open>undefined\<close> and \<^verbatim>\<open>0\<close> are falsy.\<close>

definition truthy_num :: "int option \<Rightarrow> bool" where
  "truthy_num l = (case l of None \<Rightarrow> False | Some k \<Rightarrow> k \<noteq> 0)"

text \<open>\<^verbatim>\<open>Math.round\<close> rounds a tie towards plus infinity.\<close>

definition js_round :: "rat \<Rightarrow> int" where
  "js_round x = \<lfloor>x + 1 / 2\<rfloor>"

text \<open>
  \<^verbatim>\<open>x.toFixed(f)\<close> prints the sign and then the magnitude rounded to \<open>f\<close> decimals (a tie
  takes the larger value). The printed string is represented by the sign and the rounded
  magnitude scaled by \<open>10 ^ f\<close>, which determine it.
\<close>

definition toFixed :: "nat \<Rightarrow> rat \<Rightarrow> bool \<times> int" where
  "toFixed f x = (x < 0, \<lfloor>\<bar>x\<bar> * 10 ^ f + 1 / 2\<rfloor>)"

text \<open>\<^verbatim>\<open>[...notes].sort((a, b) => a.startBeat - b.startBeat)\<close>: a stable sort.\<close>

definition sortByStartBeat :: "note list \<Rightarrow> note list" where
  "sortByStartBeat ns = sort_key startBeat ns"

text \<open>\<^verbatim>\<open>Array.prototype.findIndex\<close>, with \<open>None\<close> for \<open>-1\<close>.\<close>

fun findIndex :: "('a \<Rightarrow> bool) \<Rightarrow> 'a list \<Rightarrow> nat option" where
  "findIndex P [] = None"
| "findIndex P (x # xs) = (if P x then Some 0 else map_option Suc (findIndex P xs))"

section \<open>Knowledge base (\<^verbatim>\<open>src/knowledge/index.js\<close>)\<close>

definition PITCH_TO_SEMITONE :: "string \<Rightarrow> int option" where
  "PITCH_TO_SEMITONE s =
     (if s = ''C'' then Some 0 else if s = ''D'' then Some 2 else if s = ''E'' then Some 4
      else if s = ''F'' then Some 5 else if s = ''G'' then Some 7 else if s = ''A'' then Some 9
      else if s = ''B'' then Some 11 else None)"

definition pitchToMidi :: "pitch option \<Rightarrow> int" where
  "pitchToMidi p =
     (case p of
        None \<Rightarrow> 60
      | Some pt \<Rightarrow>
          if step pt = [] then 60
          else
            let semitone = (case PITCH_TO_SEMITONE (step pt) of None \<Rightarrow> 0 | Some v \<Rightarrow> v);
                alt = alter pt;
                oct = (if octave pt = 0 then 4 else octave pt)
            in (oct + 1) * 12 + semitone + alt)"

text \<open>\<^verbatim>\<open>TIME_SIGNATURE_DEFINITIONS[beats/beatType].strongBeats\<close>, \<^verbatim>\<open>[1]\<close> for a missing key.\<close>

definition getStrongBeats :: "timeSignature \<Rightarrow> int list" where
  "getStrongBeats ts =
     (let k = (beats ts, beatType ts) in
      if k = (2, 4) \<or> k = (2, 2) \<or> k = (3, 4) \<or> k = (3, 8) then [1]
      else if k = (4, 4) \<or> k = (4, 2) \<or> k = (5, 4) then [1, 3]
      else if k = (6, 4) \<or> k = (6, 8) \<or> k = (7, 8) then [1, 4]
      else if k = (9, 8) then [1, 4, 7]
      else if k = (12, 8) then [1, 4, 7, 10]
      else [1])"

definition isStrongBeat :: "rat \<Rightarrow> timeSignature \<Rightarrow> bool" where
  "isStrongBeat beat ts = (\<lfloor>beat\<rfloor> \<in> set (getStrongBeats ts))"

section \<open>Parser (\<^verbatim>\<open>src/modules/parser.js\<close>)\<close>



















section \<open>Single-staff rules (\<^verbatim>\<open>src/rules/singleStaff.js\<close>)\<close>

definition getDurationTypeFromTicks :: "int \<Rightarrow> string" where
  "getDurationTypeFromTicks t =
     (if t \<ge> 4096 then ''whole'' else if t \<ge> 2048 then ''half''
      else if t \<ge> 1024 then ''quarter'' else if t \<ge> 512 then ''eighth''
      else if t \<ge> 256 then ''sixteenth'' else ''32nd'')"

definition isMain :: "note \<Rightarrow> bool" where
  "isMain n = (\<not> truthy (embellishment n))"

definition endBeat :: "note \<Rightarrow> rat" where
  "endBeat n = startBeat n + of_int (ticks (duration n)) / 1024"

definition applyLevel1 :: "measure \<Rightarrow> timeSignature \<Rightarrow> measure" where
  "applyLevel1 m ts =
     (let ns = filter isMain (notes m) in
      if ns = [] then m\<lparr>notes := []\<rparr>
      else
        let sortedNotes = sortByStartBeat ns;
            firstNote = hd sortedNotes;
            measureDuration = beats ts * 1024
        in m\<lparr>notes := [firstNote\<lparr>startBeat := 1,
                 duration := \<lparr>type = getDurationTypeFromTicks measureDuration, dots = 0,
                              ticks = measureDuration, tuplet = None\<rparr>\<rparr>],
              rests := []\<rparr>)"

text \<open>
  The third search of \<^verbatim>\<open>findNoteAtBeatExcluding\<close>: the first unused note at minimal
  distance below 2. The accumulator is \<^verbatim>\<open>(minDistance, note)\<close>, \<open>None\<close> standing for
  \<^verbatim>\<open>Infinity\<close> and for no note; the note is kept as its index in the list, which is its
  identity (\<^verbatim>\<open>noteAtBeat === firstNote\<close> compares references).
\<close>

definition nearestUnused ::
  "rat \<Rightarrow> note list \<Rightarrow> rat \<Rightarrow> string set \<Rightarrow> nat option" where
  "nearestUnused bound ns beat usedNotes =
     snd (fold (\<lambda>(i, n) (minDistance, found).
            if note_id n \<in> usedNotes then (minDistance, found)
            else
              let distance = \<bar>startBeat n - beat\<bar> in
              if (case minDistance of None \<Rightarrow> True | Some d \<Rightarrow> distance < d) \<and> distance < bound
              then (Some distance, Some i) else (minDistance, found))
          (enumerate 0 ns) (None, None))"

definition findNoteAtBeatExcluding :: "note list \<Rightarrow> rat \<Rightarrow> string set \<Rightarrow> nat option" where
  "findNoteAtBeatExcluding ns beat usedNotes =
     (if ns = [] then None
      else
        case findIndex (\<lambda>n. note_id n \<notin> usedNotes \<and> \<bar>startBeat n - beat\<bar> < 1 / 10) ns of
          Some i \<Rightarrow> Some i
        | None \<Rightarrow>
            (case findIndex (\<lambda>n. note_id n \<notin> usedNotes \<and> startBeat n \<le> beat \<and> endBeat n > beat) ns of
               Some i \<Rightarrow> Some i
             | None \<Rightarrow> nearestUnused 2 ns beat usedNotes))"

text \<open>\<^verbatim>\<open>strongBeats[idx + 1] || (timeSignature.beats + 1)\<close>.\<close>

definition nextStrongBeat :: "int list \<Rightarrow> nat \<Rightarrow> timeSignature \<Rightarrow> int" where
  "nextStrongBeat strongBeats idx ts =
     (if idx + 1 < length strongBeats \<and> strongBeats ! (idx + 1) \<noteq> 0
      then strongBeats ! (idx + 1) else beats ts + 1)"

text \<open>The body of the \<^verbatim>\<open>strongBeats.forEach\<close> of Level 2 once a note has been found.\<close>

definition placeOnStrongBeat ::
  "note list \<Rightarrow> int list \<Rightarrow> timeSignature \<Rightarrow> nat \<Rightarrow> int \<Rightarrow> nat \<Rightarrow> note" where
  "placeOnStrongBeat sortedNotes strongBeats ts idx strongBeat i =
     (let noteAtBeat = sortedNotes ! i;
          isFirstNoteAnacrusis = (startBeat (hd sortedNotes) < 1);
          durationTicks = (nextStrongBeat strongBeats idx ts - strongBeat) * 1024;
          shouldKeepOriginalPosition = (idx = 0 \<and> isFirstNoteAnacrusis \<and> i = 0)
      in noteAtBeat\<lparr>startBeat := (if shouldKeepOriginalPosition then startBeat noteAtBeat
                                    else of_int strongBeat),
            duration := \<lparr>type = getDurationTypeFromTicks durationTicks, dots = 0,
                         ticks = durationTicks, tuplet = None\<rparr>\<rparr>)"

definition level2_step ::
  "note list \<Rightarrow> int list \<Rightarrow> timeSignature \<Rightarrow> nat \<times> int \<Rightarrow> note list \<times> string set
     \<Rightarrow> note list \<times> string set" where
  "level2_step sortedNotes strongBeats ts = (\<lambda>(idx, strongBeat) (result, usedNotes).
     case findNoteAtBeatExcluding sortedNotes (of_int strongBeat) usedNotes of
       None \<Rightarrow> (result, usedNotes)
     | Some i \<Rightarrow>
         (result @ [placeOnStrongBeat sortedNotes strongBeats ts idx strongBeat i],
          insert (note_id (sortedNotes ! i)) usedNotes))"

definition applyLevel2 :: "measure \<Rightarrow> timeSignature \<Rightarrow> measure" where
  "applyLevel2 m ts =
     (let ns = filter isMain (notes m) in
      if ns = [] then m\<lparr>notes := []\<rparr>
      else
        let strongBeats = getStrongBeats ts;
            sortedNotes = sortByStartBeat ns;
            result = fst (fold (level2_step sortedNotes strongBeats ts)
                            (enumerate 0 strongBeats) ([], {}))
        in m\<lparr>notes := result, rests := []\<rparr>)"

text \<open>The third search of \<^verbatim>\<open>findNoteAtBeat\<close>: the first note at minimal distance.\<close>

definition nearestNote :: "note list \<Rightarrow> rat \<Rightarrow> note option" where
  "nearestNote ns beat =
     snd (fold (\<lambda>n (minDistance, found).
            let distance = \<bar>startBeat n - beat\<bar> in
            if (case minDistance of None \<Rightarrow> True | Some d \<Rightarrow> distance < d)
            then (Some distance, Some n) else (minDistance, found))
          ns (None, None))"

definition findNoteAtBeat :: "note list \<Rightarrow> rat \<Rightarrow> note option" where
  "findNoteAtBeat ns beat =
     (if ns = [] then None
      else
        case find (\<lambda>n. \<bar>startBeat n - beat\<bar> < 1 / 10) ns of
          Some n \<Rightarrow> Some n
        | None \<Rightarrow>
            (case find (\<lambda>n. startBeat n \<le> beat \<and> endBeat n > beat) ns of
               Some n \<Rightarrow> Some n
             | None \<Rightarrow> nearestNote ns beat))"

definition applyLevel3 :: "measure \<Rightarrow> timeSignature \<Rightarrow> measure" where
  "applyLevel3 m ts =
     (let ns = filter isMain (notes m) in
      if ns = [] then m\<lparr>notes := []\<rparr>
      else
        let result = concat (map (\<lambda>beat.
              case findNoteAtBeat ns (of_int beat) of
                None \<Rightarrow> []
              | Some noteAtBeat \<Rightarrow>
                  [noteAtBeat\<lparr>startBeat := of_int beat,
                     duration := \<lparr>type = ''quarter'', dots = 0, ticks = 1024, tuplet = None\<rparr>\<rparr>])
              [1 .. beats ts])
        in m\<lparr>notes := result, rests := []\<rparr>)"

text \<open>
  Level 4. The keys of \<^verbatim>\<open>processedPositions\<close> are the prefix and the \<^verbatim>\<open>toFixed\<close> text.
  The loop over the embellishments computes \<^verbatim>\<open>nearestLocked\<close> and discards it, so it
  has no counterpart here.
\<close>

type_synonym posKey = "string \<times> bool \<times> int"

definition eighthDuration :: duration where
  "eighthDuration = \<lparr>type = ''eighth'', dots = 0, ticks = 512, tuplet = None\<rparr>"

definition eighthBeatPosition :: "rat \<Rightarrow> rat" where
  "eighthBeatPosition sb = of_int \<lfloor>sb * 2\<rfloor> / 2"

definition tripletPosition :: "int \<Rightarrow> rat \<Rightarrow> rat" where
  "tripletPosition act sb =
     (let tripletBeatUnit = 1 / of_int act in of_int \<lfloor>sb / tripletBeatUnit\<rfloor> * tripletBeatUnit)"

definition snapToEighth :: "note \<Rightarrow> note" where
  "snapToEighth n = n\<lparr>startBeat := eighthBeatPosition (startBeat n), duration := eighthDuration\<rparr>"

definition snapToTriplet :: "tuplet \<Rightarrow> note \<Rightarrow> note" where
  "snapToTriplet tp n =
     n\<lparr>startBeat := tripletPosition (actual tp) (startBeat n),
       duration := \<lparr>type = ''eighth'', dots = 0,
                    ticks = js_round (512 * of_int (normal tp) / of_int (actual tp)),
                    tuplet = Some \<lparr>actual = actual tp, normal = normal tp\<rparr>\<rparr>\<rparr>"

definition level4_step :: "note \<Rightarrow> note list \<times> posKey set \<Rightarrow> note list \<times> posKey set" where
  "level4_step n = (\<lambda>(result, processedPositions).
     if isLocked n then (result @ [n], processedPositions)
     else if ticks (duration n) \<ge> 512 then (result @ [n], processedPositions)
     else
       case tuplet (duration n) of
         Some tp \<Rightarrow>
           let posKey = (''triplet_'', toFixed 3 (tripletPosition (actual tp) (startBeat n))) in
           if posKey \<notin> processedPositions
           then (result @ [snapToTriplet tp n], insert posKey processedPositions)
           else (result, processedPositions)
       | None \<Rightarrow>
           let posKey = (''eighth_'', toFixed 2 (eighthBeatPosition (startBeat n))) in
           if posKey \<notin> processedPositions
           then (result @ [snapToEighth n], insert posKey processedPositions)
           else (result, processedPositions))"

definition simplifyRest :: "rest \<Rightarrow> rest" where
  "simplifyRest r = (if ticks (duration r) < 512 then r\<lparr>duration := eighthDuration\<rparr> else r)"

definition applyLevel4 :: "measure \<Rightarrow> timeSignature \<Rightarrow> measure" where
  "applyLevel4 m ts =
     (let sortedNotes = sortByStartBeat (notes m);
          mainNotes = filter isMain sortedNotes;
          result = fst (fold level4_step mainNotes ([], {}));
          simplifiedRests = map simplifyRest (rests m)
      in m\<lparr>notes := result, rests := simplifiedRests\<rparr>)"

text \<open>
  Level 5. \<^verbatim>\<open>reduce\<close> finds the first main note at minimal distance from the
  embellishment; the assignment to \<^verbatim>\<open>hadEmbellishment\<close> mutates that note, which is an
  element of the returned list.
\<close>

definition nearestMain :: "note list \<Rightarrow> note \<Rightarrow> (nat \<times> rat) option" where
  "nearestMain mainNotes emb =
     fold (\<lambda>(i, n) nearest.
            let dist = \<bar>startBeat n - startBeat emb\<bar> in
            case nearest of
              None \<Rightarrow> Some (i, dist)
            | Some (j, d) \<Rightarrow> if dist < d then Some (i, dist) else nearest)
          (enumerate 0 mainNotes) None"

definition markEmbellishment :: "note \<Rightarrow> note list \<Rightarrow> note list" where
  "markEmbellishment emb mainNotes =
     (case nearestMain mainNotes emb of
        None \<Rightarrow> mainNotes
      | Some (i, d) \<Rightarrow>
          mainNotes[i := (mainNotes ! i)\<lparr>hadEmbellishment := embellishment emb\<rparr>])"

definition applyLevel5 :: "measure \<Rightarrow> timeSignature \<Rightarrow> measure" where
  "applyLevel5 m ts =
     (let mainNotes = filter isMain (notes m);
          embellishments = filter (\<lambda>n. \<not> isMain n) (notes m)
      in m\<lparr>notes := fold markEmbellishment embellishments mainNotes, rests := rests m\<rparr>)"

text \<open>The level is a JavaScript value: a number, or \<^verbatim>\<open>undefined\<close> (\<open>None\<close>).\<close>

definition applySingleStaffSimplification ::
  "measure \<Rightarrow> int option \<Rightarrow> timeSignature \<Rightarrow> measure" where
  "applySingleStaffSimplification m level ts =
     (if level = Some 1 then applyLevel1 m ts
      else if level = Some 2 then applyLevel2 m ts
      else if level = Some 3 then applyLevel3 m ts
      else if level = Some 4 then applyLevel4 m ts
      else if level = Some 5 then applyLevel5 m ts
      else m)"

section \<open>Grand-staff rules (\<^verbatim>\<open>src/rules/grandStaff.js\<close>)\<close>

text \<open>
  \<^verbatim>\<open>groupNotesByBeat\<close> fills a \<^verbatim>\<open>Map\<close>, which keeps its keys in insertion order: an
  association list. A note joins the group of its start beat rounded to a quarter of a beat.
\<close>

definition quantizeBeat :: "rat \<Rightarrow> rat" where
  "quantizeBeat sb = of_int (js_round (sb * 4)) / 4"

fun groupInsert :: "'k \<Rightarrow> 'v \<Rightarrow> ('k \<times> 'v list) list \<Rightarrow> ('k \<times> 'v list) list" where
  "groupInsert b n [] = [(b, [n])]"
| "groupInsert b n ((k, ns) # g) =
     (if k = b then (k, ns @ [n]) # g else (k, ns) # groupInsert b n g)"

definition groupNotesByBeat :: "note list \<Rightarrow> (rat \<times> note list) list" where
  "groupNotesByBeat ns = fold (\<lambda>n g. groupInsert (quantizeBeat (startBeat n)) n g) ns []"

text \<open>
  The comparator of \<^verbatim>\<open>extractVoicesByPitch\<close>: ascending MIDI pitch when \<open>bassFirst\<close>,
  descending otherwise; \<^verbatim>\<open>Array.prototype.sort\<close> is stable.
\<close>

definition sortByPitch :: "bool \<Rightarrow> note list \<Rightarrow> note list" where
  "sortByPitch bassFirst ns =
     sort_key (\<lambda>n. if bassFirst then pitchToMidi (pitch n) else - pitchToMidi (pitch n)) ns"

definition voiceLines_step ::
  "bool \<Rightarrow> (rat \<times> note list) list \<Rightarrow> rat \<Rightarrow> note list \<times> note list \<Rightarrow> note list \<times> note list" where
  "voiceLines_step bassFirst beatGroups beat = (\<lambda>(primaryLine, secondaryLine).
     case map_of beatGroups beat of
       None \<Rightarrow> (primaryLine, secondaryLine)
     | Some notesAtBeat \<Rightarrow>
         if notesAtBeat = [] then (primaryLine, secondaryLine)
         else
           let sorted = sortByPitch bassFirst notesAtBeat
           in (primaryLine @ [hd sorted], secondaryLine @ tl sorted))"

text \<open>The result is the pair \<^verbatim>\<open>(primaryLine, secondaryLine)\<close>.\<close>

definition extractVoicesByPitch :: "note list \<Rightarrow> bool \<Rightarrow> note list \<times> note list" where
  "extractVoicesByPitch ns bassFirst =
     (if ns = [] then ([], [])
      else
        let mainNotes = filter isMain ns in
        if mainNotes = [] then ([], [])
        else
          let beatGroups = groupNotesByBeat mainNotes;
              sortedBeats = sort (map fst beatGroups)
          in fold (voiceLines_step bassFirst beatGroups) sortedBeats ([], []))"

record voices =
  soprano :: "note list"
  alto :: "note list"
  tenor :: "note list"
  bass :: "note list"

definition withVoicePart :: "string \<Rightarrow> note \<Rightarrow> note" where
  "withVoicePart vp n = n\<lparr>voicePart := Some vp\<rparr>"

definition separateVoices :: "note list \<Rightarrow> note list \<Rightarrow> voices" where
  "separateVoices upperStaff lowerStaff =
     (let upperLines = extractVoicesByPitch upperStaff False;
          lowerLines = extractVoicesByPitch lowerStaff True
      in \<lparr>soprano = map (withVoicePart ''soprano'') (fst upperLines),
          alto = map (withVoicePart ''alto'') (snd upperLines),
          tenor = map (withVoicePart ''tenor'') (snd lowerLines),
          bass = map (withVoicePart ''bass'') (fst lowerLines)\<rparr>)"

text \<open>
  \<^verbatim>\<open>applyStrongBeatOnly\<close>: the three searches are written inline in the source, the first
  with the tolerance 0.25.
\<close>

definition strongBeatNote :: "note list \<Rightarrow> rat \<Rightarrow> string set \<Rightarrow> nat option" where
  "strongBeatNote sortedNotes strongBeat usedNotes =
     (case findIndex (\<lambda>n. note_id n \<notin> usedNotes \<and> \<bar>startBeat n - strongBeat\<bar> < 1 / 4)
             sortedNotes of
        Some i \<Rightarrow> Some i
      | None \<Rightarrow>
          (case findIndex (\<lambda>n. note_id n \<notin> usedNotes \<and> startBeat n \<le> strongBeat
                                  \<and> endBeat n > strongBeat) sortedNotes of
             Some i \<Rightarrow> Some i
           | None \<Rightarrow> nearestUnused 2 sortedNotes strongBeat usedNotes))"

definition strongBeatOnly_step ::
  "note list \<Rightarrow> int list \<Rightarrow> timeSignature \<Rightarrow> nat \<times> int \<Rightarrow> note list \<times> string set
     \<Rightarrow> note list \<times> string set" where
  "strongBeatOnly_step sortedNotes strongBeats ts = (\<lambda>(idx, strongBeat) (result, usedNotes).
     case strongBeatNote sortedNotes (of_int strongBeat) usedNotes of
       None \<Rightarrow> (result, usedNotes)
     | Some i \<Rightarrow>
         (result @ [placeOnStrongBeat sortedNotes strongBeats ts idx strongBeat i],
          insert (note_id (sortedNotes ! i)) usedNotes))"

definition applyStrongBeatOnly :: "note list \<Rightarrow> timeSignature \<Rightarrow> note list" where
  "applyStrongBeatOnly ns ts =
     (if ns = [] then []
      else
        let mainNotes = filter isMain ns in
        if mainNotes = [] then []
        else
          let strongBeats = getStrongBeats ts;
              sortedNotes = sortByStartBeat mainNotes
          in fst (fold (strongBeatOnly_step sortedNotes strongBeats ts)
                    (enumerate 0 strongBeats) ([], {})))"

record config =
  sopranoLevel :: "int option"
  bassLevel :: "int option"

text \<open>\<^verbatim>\<open>config.sopranoLevel || d\<close>.\<close>

definition orDefault :: "int option \<Rightarrow> int \<Rightarrow> int option" where
  "orDefault l d = (if truthy_num l then l else Some d)"

text \<open>
  \<^verbatim>\<open>voice.length > 0 ? applySingleStaffSimplification({...measure, notes: voice}, level, ts)
  : { notes: [] }\<close>, of which only the notes are read.
\<close>

definition simplifyVoice :: "measure \<Rightarrow> note list \<Rightarrow> int option \<Rightarrow> timeSignature \<Rightarrow> note list" where
  "simplifyVoice m v level ts =
     (if v \<noteq> [] then notes (applySingleStaffSimplification (m\<lparr>notes := v\<rparr>) level ts) else [])"

definition strongBeatVoice :: "note list \<Rightarrow> timeSignature \<Rightarrow> note list" where
  "strongBeatVoice v ts = (if v \<noteq> [] then applyStrongBeatOnly v ts else [])"

definition retag :: "int \<Rightarrow> string \<Rightarrow> int \<Rightarrow> note \<Rightarrow> note" where
  "retag st vp v n = n\<lparr>staff := st, voicePart := Some vp, voice := v\<rparr>"

definition staffNotes :: "measure \<Rightarrow> int \<Rightarrow> note list" where
  "staffNotes m st = filter (\<lambda>n. staff n = st) (notes m)"

definition applyGrandStaffLevel1 :: "measure \<Rightarrow> timeSignature \<Rightarrow> config \<Rightarrow> measure" where
  "applyGrandStaffLevel1 m ts cfg =
     (let sopranoLvl = orDefault (sopranoLevel cfg) 4;
          bassLvl = orDefault (bassLevel cfg) 1;
          vs = separateVoices (staffNotes m 1) (staffNotes m 2);
          simplifiedSoprano = simplifyVoice m (soprano vs) sopranoLvl ts;
          simplifiedBass = simplifyVoice m (bass vs) bassLvl ts
      in m\<lparr>notes := map (retag 1 ''soprano'' 1) simplifiedSoprano
                     @ map (retag 2 ''bass'' 2) simplifiedBass,
            rests := []\<rparr>)"

definition applyGrandStaffLevel2 :: "measure \<Rightarrow> timeSignature \<Rightarrow> config \<Rightarrow> measure" where
  "applyGrandStaffLevel2 m ts cfg =
     (let sopranoLvl = orDefault (sopranoLevel cfg) 4;
          bassLvl = orDefault (bassLevel cfg) 2;
          vs = separateVoices (staffNotes m 1) (staffNotes m 2);
          simplifiedSoprano = simplifyVoice m (soprano vs) sopranoLvl ts;
          simplifiedAlto = strongBeatVoice (alto vs) ts;
          simplifiedBass = simplifyVoice m (bass vs) bassLvl ts
      in m\<lparr>notes := map (retag 1 ''soprano'' 1) simplifiedSoprano
                     @ map (retag 1 ''alto'' 2) simplifiedAlto
                     @ map (retag 2 ''bass'' 2) simplifiedBass,
            rests := []\<rparr>)"

definition applyGrandStaffLevel3 :: "measure \<Rightarrow> timeSignature \<Rightarrow> config \<Rightarrow> measure" where
  "applyGrandStaffLevel3 m ts cfg =
     (let sopranoLvl = orDefault (sopranoLevel cfg) 5;
          bassLvl = orDefault (bassLevel cfg) 2;
          vs = separateVoices (staffNotes m 1) (staffNotes m 2);
          simplifiedSoprano = simplifyVoice m (soprano vs) sopranoLvl ts;
          simplifiedTenor = strongBeatVoice (tenor vs) ts;
          simplifiedBass = simplifyVoice m (bass vs) bassLvl ts
      in m\<lparr>notes := map (retag 1 ''soprano'' 1) simplifiedSoprano
                     @ map (retag 2 ''tenor'' 1) simplifiedTenor
                     @ map (retag 2 ''bass'' 2) simplifiedBass,
            rests := []\<rparr>)"

definition applyGrandStaffLevel4 :: "measure \<Rightarrow> timeSignature \<Rightarrow> config \<Rightarrow> measure" where
  "applyGrandStaffLevel4 m ts cfg =
     (let sopranoLvl = orDefault (sopranoLevel cfg) 4;
          bassLvl = orDefault (bassLevel cfg) 2;
          vs = separateVoices (staffNotes m 1) (staffNotes m 2);
          simplifiedSoprano = simplifyVoice m (soprano vs) sopranoLvl ts;
          simplifiedAlto = strongBeatVoice (alto vs) ts;
          simplifiedTenor = strongBeatVoice (tenor vs) ts;
          simplifiedBass = simplifyVoice m (bass vs) bassLvl ts
      in m\<lparr>notes := map (retag 1 ''soprano'' 1) simplifiedSoprano
                     @ map (retag 1 ''alto'' 2) simplifiedAlto
                     @ map (retag 2 ''tenor'' 1) simplifiedTenor
                     @ map (retag 2 ''bass'' 2) simplifiedBass,
            rests := []\<rparr>)"

definition applyGrandStaffLevel5 :: "measure \<Rightarrow> timeSignature \<Rightarrow> config \<Rightarrow> measure" where
  "applyGrandStaffLevel5 m ts cfg =
     (let sopranoLvl = orDefault (sopranoLevel cfg) 5;
          bassLvl = orDefault (bassLevel cfg) 5;
          vs = separateVoices (staffNotes m 1) (staffNotes m 2);
          simplifiedSoprano = simplifyVoice m (soprano vs) sopranoLvl ts;
          simplifiedAlto = simplifyVoice m (alto vs) (Some 5) ts;
          simplifiedTenor = simplifyVoice m (tenor vs) (Some 5) ts;
          simplifiedBass = simplifyVoice m (bass vs) bassLvl ts
      in m\<lparr>notes := map (retag 1 ''soprano'' 1) simplifiedSoprano
                     @ map (retag 1 ''alto'' 2) simplifiedAlto
                     @ map (retag 2 ''tenor'' 1) simplifiedTenor
                     @ map (retag 2 ''bass'' 2) simplifiedBass,
            rests := []\<rparr>)"

definition applyGrandStaffSimplification ::
  "measure \<Rightarrow> int option \<Rightarrow> timeSignature \<Rightarrow> config \<Rightarrow> measure" where
  "applyGrandStaffSimplification m level ts cfg =
     (if level = Some 1 then applyGrandStaffLevel1 m ts cfg
      else if level = Some 2 then applyGrandStaffLevel2 m ts cfg
      else if level = Some 3 then applyGrandStaffLevel3 m ts cfg
      else if level = Some 4 then applyGrandStaffLevel4 m ts cfg
      else if level = Some 5 then applyGrandStaffLevel5 m ts cfg
      else m)"

section \<open>Anacrusis detection (\<^verbatim>\<open>isAnacrusis\<close> of \<^verbatim>\<open>src/modules/analyzer.js\<close>)\<close>

text \<open>
  The key \<^verbatim>\<open>`${note.staff}_${note.voice}`\<close> of a voice group is the pair of the two numbers.
\<close>

definition maxEndBeat :: "note list \<Rightarrow> rat" where
  "maxEndBeat ns = fold (\<lambda>n mx. if endBeat n > mx then endBeat n else mx) ns 0"

definition isAnacrusis :: "measure \<Rightarrow> timeSignature \<Rightarrow> bool" where
  "isAnacrusis m ts =
     (let expectedBeats = beats ts in
      if notes m = [] then False
      else
        let voiceGroups = fold (\<lambda>n g. groupInsert (staff n, voice n) n g) (notes m) [];
            maxActualBeats = fold (\<lambda>(k, ns) mx.
                let actualBeats = maxEndBeat ns - 1 in
                if actualBeats > mx then actualBeats else mx) voiceGroups 0
        in maxActualBeats < of_int expectedBeats * (9 / 10))"

section \<open>Analyzer (\<^verbatim>\<open>src/modules/analyzer.js\<close>)\<close>

text \<open>
  The remainder operator \<^verbatim>\<open>%\<close> truncates the quotient towards zero; it is used here
  with a divisor that is not zero.
\<close>

definition js_trunc :: "rat \<Rightarrow> int" where
  "js_trunc x = (if x \<ge> 0 then \<lfloor>x\<rfloor> else \<lceil>x\<rceil>)"

definition js_rem :: "rat \<Rightarrow> rat \<Rightarrow> rat" where
  "js_rem x y = x - y * of_int (js_trunc (x / y))"

definition isMelodicTurningPoint :: "note list \<Rightarrow> nat \<Rightarrow> bool" where
  "isMelodicTurningPoint ns index =
     (if index = 0 \<or> index = length ns - 1 then False
      else
        let prev = ns ! (index - 1); curr = ns ! index; nxt = ns ! (index + 1) in
        if truthy (embellishment prev) \<or> truthy (embellishment curr) \<or> truthy (embellishment nxt)
        then False
        else
          let prevMidi = pitchToMidi (pitch prev);
              currMidi = pitchToMidi (pitch curr);
              nextMidi = pitchToMidi (pitch nxt);
              isLocalMax = (currMidi > prevMidi \<and> currMidi > nextMidi);
              isLocalMin = (currMidi < prevMidi \<and> currMidi < nextMidi)
          in isLocalMax \<or> isLocalMin)"

text \<open>
  \<^verbatim>\<open>Math.abs(startBeat % (1 / tupletRatio) - 0) < 0.01\<close> with
  \<^verbatim>\<open>tupletRatio = actual / normal\<close>. With \<^verbatim>\<open>actual = 0\<close> the divisor is infinite and the
  remainder is \<^verbatim>\<open>startBeat\<close>; with \<^verbatim>\<open>normal = 0\<close> the remainder is \<^verbatim>\<open>NaN\<close> and the
  comparison is false.
\<close>

definition isFirstOfTriplet :: "tuplet \<Rightarrow> rat \<Rightarrow> bool" where
  "isFirstOfTriplet tp sb =
     (if normal tp = 0 then False
      else if actual tp = 0 then \<bar>sb\<bar> < 1 / 100
      else \<bar>js_rem sb (of_int (normal tp) / of_int (actual tp))\<bar> < 1 / 100)"

text \<open>
  The body of the loop over the notes of a measure in \<^verbatim>\<open>identifyLockedNotes\<close>: the lock
  reason it assigns, \<open>None\<close> when the note is left as it is.
\<close>

definition lockDecision :: "timeSignature \<Rightarrow> note list \<Rightarrow> nat \<Rightarrow> note \<Rightarrow> string option" where
  "lockDecision ts measureNotes noteIdx n =
     (let strongBs = getStrongBeats ts;
          staff1Notes = filter (\<lambda>x. staff x = 1) measureNotes;
          staff2Notes = filter (\<lambda>x. staff x = 2) measureNotes;
          sb = startBeat n;
          durationBeats = (of_int (ticks (duration n)) :: rat) / 1024;
          eb = sb + durationBeats;
          startsOnWeakBeat = (\<not> isStrongBeat sb ts);
          extendsToStrongBeat = list_ex (\<lambda>s. sb < of_int s \<and> eb \<ge> of_int s) strongBs;
          beatFraction = js_rem sb 1;
          sameStaffNotes = (if staff n = 1 then staff1Notes else staff2Notes)
      in if truthy (embellishment n) then None
         else if startsOnWeakBeat \<and> extendsToStrongBeat then Some ''syncopation''
         else if dots (duration n) > 0 \<and> ticks (duration n) \<ge> 512 then Some ''dotted_rhythm''
         else if truthy (tiedTo n) then Some ''cross_beat_tie''
         else if beatFraction \<ge> 1 / 2 \<and> beatFraction < 1 \<and> durationBeats \<ge> 1 / 2
              then Some ''off_beat_start''
         else if (case tuplet (duration n) of None \<Rightarrow> False
                  | Some tp \<Rightarrow> isFirstOfTriplet tp sb) then Some ''triplet_head''
         else if (case findIndex (\<lambda>x. note_id x = note_id n) sameStaffNotes of
                    None \<Rightarrow> False
                  | Some staffNoteIdx \<Rightarrow> isMelodicTurningPoint sameStaffNotes staffNoteIdx)
              then Some ''melodic_turning_point''
         else if noteIdx = length measureNotes - 1 \<and> ticks (duration n) \<ge> 1024
              then Some ''phrase_ending''
         else None)"

definition lockNote :: "timeSignature \<Rightarrow> note list \<Rightarrow> nat \<times> note \<Rightarrow> note" where
  "lockNote ts measureNotes = (\<lambda>(noteIdx, n).
     case lockDecision ts measureNotes noteIdx n of
       None \<Rightarrow> n
     | Some r \<Rightarrow> n\<lparr>isLocked := True, lockReason := Some r\<rparr>)"

text \<open>
  \<^verbatim>\<open>identifyLockedNotes\<close> assigns \<^verbatim>\<open>isLocked\<close> and \<^verbatim>\<open>lockReason\<close> only, and the decision
  for a note reads neither field of any note, so the loop is a map.
\<close>

definition identifyLockedNotes :: "measure list \<Rightarrow> timeSignature \<Rightarrow> measure list" where
  "identifyLockedNotes ms ts =
     map (\<lambda>m. m\<lparr>notes := map (lockNote ts (notes m)) (enumerate 0 (notes m))\<rparr>) ms"

text \<open>\<^verbatim>\<open>classifyVoicePart\<close> of \<^verbatim>\<open>src/ai/index.js\<close>.\<close>

definition classifyVoicePart :: "note \<Rightarrow> string" where
  "classifyVoicePart n =
     (let midi = pitchToMidi (pitch n) in
      if staff n = 1 then (if midi \<ge> 60 then ''soprano'' else ''alto'')
      else (if midi \<ge> 48 then ''tenor'' else ''bass''))"

text \<open>
  \<^verbatim>\<open>identifyVoices\<close> assigns \<^verbatim>\<open>voicePart\<close> to note objects that the measures share, so a
  note is carried with its index in \<^verbatim>\<open>allNotes\<close>, which is its identity. The extreme note
  of a group is found by \<^verbatim>\<open>reduce\<close> without initial value.
\<close>

type_synonym inote = "nat \<times> note"

definition highestOf :: "inote list \<Rightarrow> inote" where
  "highestOf g = fold (\<lambda>x mx. if pitchToMidi (pitch (snd x)) > pitchToMidi (pitch (snd mx))
                               then x else mx) (tl g) (hd g)"

definition lowestOf :: "inote list \<Rightarrow> inote" where
  "lowestOf g = fold (\<lambda>x mn. if pitchToMidi (pitch (snd x)) < pitchToMidi (pitch (snd mn))
                              then x else mn) (tl g) (hd g)"

definition groupByBeat :: "inote list \<Rightarrow> (int \<times> inote list) list" where
  "groupByBeat ns = fold (\<lambda>x g. groupInsert \<lfloor>startBeat (snd x)\<rfloor> x g) ns []"

definition getHighestVoice :: "inote list \<Rightarrow> inote list" where
  "getHighestVoice ns = map (\<lambda>(k, g). highestOf g) (groupByBeat ns)"

definition getLowestVoice :: "inote list \<Rightarrow> inote list" where
  "getLowestVoice ns = map (\<lambda>(k, g). lowestOf g) (groupByBeat ns)"

text \<open>
  \<^verbatim>\<open>identifyMelodyLine\<close> and \<^verbatim>\<open>identifyBassLine\<close> of \<^verbatim>\<open>src/ai/index.js\<close>; the key
  \<^verbatim>\<open>`${note.staff}_${Math.floor(note.startBeat)}`\<close> is the pair of the two numbers, and it
  starts with \<^verbatim>\<open>1_\<close> exactly when the staff is 1.
\<close>

definition groupByStaffBeat :: "inote list \<Rightarrow> ((int \<times> int) \<times> inote list) list" where
  "groupByStaffBeat ns =
     fold (\<lambda>x g. groupInsert (staff (snd x), \<lfloor>startBeat (snd x)\<rfloor>) x g) ns []"

definition identifyMelodyLine :: "inote list \<Rightarrow> inote list" where
  "identifyMelodyLine ns =
     (if ns = [] then []
      else map (\<lambda>(k, g). highestOf g) (filter (\<lambda>(k, g). fst k = 1) (groupByStaffBeat ns)))"

definition identifyBassLine :: "inote list \<Rightarrow> inote list" where
  "identifyBassLine ns =
     (if ns = [] then []
      else map (\<lambda>(k, g). lowestOf g) (filter (\<lambda>(k, g). fst k = 2) (groupByStaffBeat ns)))"

text \<open>
  The four lists of \<^verbatim>\<open>identifyVoices\<close>, as indexed notes; the argument \<open>aiAvailable\<close> is
  the value of \<^verbatim>\<open>isAIAvailable()\<close>.
\<close>

definition identifyVoiceLists ::
  "bool \<Rightarrow> inote list \<Rightarrow> inote list \<times> inote list \<times> inote list \<times> inote list" where
  "identifyVoiceLists aiAvailable allNotes =
     (let upperStaff = filter (\<lambda>x. staff (snd x) = 1) allNotes;
          lowerStaff = filter (\<lambda>x. staff (snd x) = 2) allNotes;
          sopranoL = (if aiAvailable then identifyMelodyLine upperStaff
                      else getHighestVoice upperStaff);
          bassL = (if aiAvailable then identifyBassLine lowerStaff
                   else getLowestVoice lowerStaff);
          sopranoIds = set (map (\<lambda>x. note_id (snd x)) sopranoL);
          altoL = filter (\<lambda>x. note_id (snd x) \<notin> sopranoIds) upperStaff;
          bassIds = set (map (\<lambda>x. note_id (snd x)) bassL);
          tenorL = filter (\<lambda>x. note_id (snd x) \<notin> bassIds) lowerStaff
      in (sopranoL, altoL, tenorL, bassL))"

text \<open>
  The four \<^verbatim>\<open>forEach\<close> loops that assign \<^verbatim>\<open>voicePart\<close>, in their order: the last
  assignment to a note stays.
\<close>

definition assignVoicePart ::
  "inote list \<times> inote list \<times> inote list \<times> inote list \<Rightarrow> inote \<Rightarrow> note" where
  "assignVoicePart = (\<lambda>(sopranoL, altoL, tenorL, bassL) (i, n).
     if i \<in> fst ` set bassL then n\<lparr>voicePart := Some ''bass''\<rparr>
     else if i \<in> fst ` set tenorL then n\<lparr>voicePart := Some ''tenor''\<rparr>
     else if i \<in> fst ` set altoL then n\<lparr>voicePart := Some ''alto''\<rparr>
     else if i \<in> fst ` set sopranoL then n\<lparr>voicePart := Some ''soprano''\<rparr>
     else n)"

text \<open>Cutting the list of all notes back into the note lists of the measures.\<close>

fun regroup :: "measure list \<Rightarrow> note list \<Rightarrow> measure list" where
  "regroup [] ns = []"
| "regroup (m # ms) ns =
     m\<lparr>notes := take (length (notes m)) ns\<rparr> # regroup ms (drop (length (notes m)) ns)"

section \<open>Simplification engine (\<^verbatim>\<open>src/modules/simplifier.js\<close>)\<close>

record scoreBase =
  metadata :: scoreMetadata
  measures :: "measure list"

record typedScore = scoreBase +
  scoreType :: string

record analyzedScore = typedScore +
  voices :: voices
  lockedNotes :: "note list"
  strongBeats :: "int list"

record simplifiedScore = typedScore +
  simplificationLevel :: "int option"

record simplificationConfig = config +
  mainLevel :: "int option"

record parsedScore = scoreBase +
  rawXml :: string

text \<open>
  \<^verbatim>\<open>analyzeScore\<close> (the value its promise resolves to). For a single-staff score
  \<^verbatim>\<open>voices\<close> is the object \<^verbatim>\<open>{}\<close>, represented by four empty lists.
\<close>

definition analyzeScore :: "bool \<Rightarrow> parsedScore \<Rightarrow> string \<Rightarrow> analyzedScore" where
  "analyzeScore aiAvailable score st =
     (let md = metadata score;
          strongBs = getStrongBeats (timeSignature md);
          analyzedMeasures = map (\<lambda>m. m\<lparr>notes := map (\<lambda>n.
              n\<lparr>voicePart := (if st = ''grand-staff'' then Some (classifyVoicePart n) else None),
                isLocked := False, lockReason := None\<rparr>) (notes m)\<rparr>) (measures score);
          lockedMeasures = identifyLockedNotes analyzedMeasures (timeSignature md);
          allNotes = enumerate 0 (concat (map notes lockedMeasures));
          lists = (if st = ''grand-staff'' then identifyVoiceLists aiAvailable allNotes
                   else ([], [], [], []));
          finalNotes = map (assignVoicePart lists) allNotes;
          final = (\<lambda>l. map (\<lambda>x. finalNotes ! fst x) l)
      in \<lparr>metadata = md,
          measures = regroup lockedMeasures finalNotes,
          scoreType = st,
          voices = (case lists of (sopranoL, altoL, tenorL, bassL) \<Rightarrow>
                      \<lparr>soprano = final sopranoL, alto = final altoL,
                       tenor = final tenorL, bass = final bassL\<rparr>),
          lockedNotes = filter isLocked finalNotes,
          strongBeats = strongBs\<rparr>)"

definition preserveAnacrusis :: "measure \<Rightarrow> measure" where
  "preserveAnacrusis m = m\<lparr>notes := filter isMain (notes m)\<rparr>"

text \<open>\<^verbatim>\<open>defaults[mainLevel] || 4\<close> and \<^verbatim>\<open>defaults[mainLevel] || 2\<close>.\<close>

definition getDefaultSopranoLevel :: "int option \<Rightarrow> int" where
  "getDefaultSopranoLevel l =
     (if l = Some 1 then 4 else if l = Some 2 then 4 else if l = Some 3 then 5
      else if l = Some 4 then 4 else if l = Some 5 then 5 else 4)"

definition getDefaultBassLevel :: "int option \<Rightarrow> int" where
  "getDefaultBassLevel l =
     (if l = Some 1 then 1 else if l = Some 2 then 2 else if l = Some 3 then 2
      else if l = Some 4 then 2 else if l = Some 5 then 5 else 2)"

definition simplifyMeasure ::
  "bool \<Rightarrow> string \<Rightarrow> timeSignature \<Rightarrow> simplificationConfig \<Rightarrow> nat \<times> measure \<Rightarrow> measure" where
  "simplifyMeasure hasAnacrusis st ts cfg = (\<lambda>(index, m).
     if hasAnacrusis \<and> index = 0 then preserveAnacrusis m
     else if st = ''single-staff'' then applySingleStaffSimplification m (mainLevel cfg) ts
     else applyGrandStaffSimplification m (mainLevel cfg) ts
            \<lparr>sopranoLevel = orDefault (sopranoLevel cfg) (getDefaultSopranoLevel (mainLevel cfg)),
             bassLevel = orDefault (bassLevel cfg) (getDefaultBassLevel (mainLevel cfg))\<rparr>)"

definition simplifyScore :: "analyzedScore \<Rightarrow> simplificationConfig \<Rightarrow> simplifiedScore" where
  "simplifyScore analyzed cfg =
     (let md = metadata analyzed;
          ms = measures analyzed;
          st = scoreType analyzed;
          hasAnacrusis = (ms \<noteq> [] \<and> isAnacrusis (hd ms) (timeSignature md));
          simplifiedMeasures = map (simplifyMeasure hasAnacrusis st (timeSignature md) cfg)
                                 (enumerate 0 ms)
      in \<lparr>metadata = md, measures = simplifiedMeasures, scoreType = st,
          simplificationLevel = mainLevel cfg\<rparr>)"

section \<open>Exporter (\<^verbatim>\<open>src/modules/exporter.js\<close>)\<close>

text \<open>
  The exporter concatenates XML text. The text is represented by the list of the elements
  it writes inside a measure, each with the values printed in it:
  \<^item> a pitched \<^verbatim>\<open><note>\<close>: chord flag, pitch, duration, tie, voice, type, number of dots,
    time modification, stem and staff;
  \<^item> a \<^verbatim>\<open><note>\<close> with a \<^verbatim>\<open><rest/>\<close>: whether it is \<^verbatim>\<open>measure="yes"\<close>, duration, voice,
    type (absent in a full-measure rest) and staff;
  \<^item> \<^verbatim>\<open><backup>\<close> with its duration, \<^verbatim>\<open><attributes>\<close> (divisions, fifths, beats, beat type,
    whether two staves are declared) and the tempo \<^verbatim>\<open><direction>\<close>.
  Reading \<^verbatim>\<open>note.pitch.step\<close> of a note without pitch throws a \<^verbatim>\<open>TypeError\<close>, and the
  \<^verbatim>\<open>while\<close> loop of \<^verbatim>\<open>generateRestsForDuration\<close> need not end: a computation yields
  \<open>None\<close> when it does not return, \<open>Some (Inl e)\<close> when it throws and \<open>Some (Inr v)\<close> when
  it returns \<open>v\<close>.
\<close>

datatype exportError = TypeError

datatype xml =
    NoteXml bool pitch int bool int string nat "tuplet option" "string option" int
  | RestXml bool int int "string option" int
  | BackupXml int
  | AttributesXml int int int int bool
  | DirectionXml int

type_synonym 'a result = "(exportError + 'a) option"

definition returns :: "'a \<Rightarrow> 'a result" where
  "returns v = Some (Inr v)"

definition throws :: "exportError \<Rightarrow> 'a result" where
  "throws e = Some (Inl e)"

definition andThen :: "'a result \<Rightarrow> ('a \<Rightarrow> 'b result) \<Rightarrow> 'b result" where
  "andThen r f = (case r of None \<Rightarrow> None | Some (Inl e) \<Rightarrow> Some (Inl e) | Some (Inr v) \<Rightarrow> f v)"

text \<open>A \<^verbatim>\<open>forEach\<close> whose body may throw or diverge, threading the loop variables.\<close>

fun forEachResult :: "('a \<Rightarrow> 's \<Rightarrow> 's result) \<Rightarrow> 'a list \<Rightarrow> 's \<Rightarrow> 's result" where
  "forEachResult f [] st = returns st"
| "forEachResult f (x # xs) st = andThen (f x st) (forEachResult f xs)"

definition durationToType :: "string \<Rightarrow> string" where
  "durationToType t =
     (if t = ''whole'' \<or> t = ''half'' \<or> t = ''quarter'' \<or> t = ''eighth'' \<or> t = ''32nd'' then t
      else if t = ''sixteenth'' then ''16th'' else ''quarter'')"

text \<open>\<^verbatim>\<open>note.duration?.ticks || 1024\<close>.\<close>

definition ticksOrQuarter :: "note \<Rightarrow> int" where
  "ticksOrQuarter n = (if ticks (duration n) = 0 then 1024 else ticks (duration n))"

definition generateNoteXML ::
  "note \<Rightarrow> int \<Rightarrow> int \<Rightarrow> int \<Rightarrow> bool \<Rightarrow> string option \<Rightarrow> xml result" where
  "generateNoteXML n divisions vc stf isChord stemDirection =
     (let durationTicks = ticksOrQuarter n;
          xmlDuration = js_round (of_int durationTicks / 1024 * of_int divisions)
      in case pitch n of
           None \<Rightarrow> throws TypeError
         | Some p \<Rightarrow>
             returns (NoteXml isChord p xmlDuration (truthy (tiedTo n)) vc
                        (durationToType (if type (duration n) = [] then ''quarter''
                                         else type (duration n)))
                        (dots (duration n)) (tuplet (duration n))
                        (if truthy stemDirection then stemDirection else None) stf))"

definition generateFullMeasureRest :: "int \<Rightarrow> int \<Rightarrow> int \<Rightarrow> xml" where
  "generateFullMeasureRest vc stf measureDuration = RestXml True measureDuration vc None stf"

definition restValues :: "int \<Rightarrow> (rat \<times> string) list" where
  "restValues divisions =
     [(of_int divisions * 4, ''whole''), (of_int divisions * 2, ''half''),
      (of_int divisions, ''quarter''), (of_int divisions / 2, ''eighth''),
      (of_int divisions / 4, ''16th''), (of_int divisions / 8, ''32nd'')]"

text \<open>
  The \<^verbatim>\<open>while (remaining > 0.5)\<close> loop; the inner \<^verbatim>\<open>for\<close> takes the first rest value that
  fits, \<^verbatim>\<open>if (!found) break\<close> leaves the loop.
\<close>

partial_function (option) restsLoop ::
  "int \<Rightarrow> int \<Rightarrow> int \<Rightarrow> rat \<Rightarrow> xml list \<Rightarrow> xml list option" where
  "restsLoop vc stf divisions remaining acc =
     (if remaining > 1 / 2 then
        (case find (\<lambda>rv. fst rv \<le> remaining + 1 / 2) (restValues divisions) of
           None \<Rightarrow> Some acc
         | Some rv \<Rightarrow>
             restsLoop vc stf divisions (remaining - fst rv)
               (acc @ [RestXml False (js_round (fst rv)) vc (Some (snd rv)) stf]))
      else Some acc)"

declare restsLoop.simps [code]

definition generateRestsForDuration :: "rat \<Rightarrow> int \<Rightarrow> int \<Rightarrow> int \<Rightarrow> xml list result" where
  "generateRestsForDuration totalDuration vc stf divisions =
     map_option Inr (restsLoop vc stf divisions totalDuration [])"

text \<open>
  \<^verbatim>\<open>groupNotesByPosition\<close>: the fields \<^verbatim>\<open>position\<close>, \<^verbatim>\<open>startBeat\<close> and \<^verbatim>\<open>notes\<close> of a
  group are named \<open>g_position\<close>, \<open>g_startBeat\<close> and \<open>g_notes\<close>. \<^verbatim>\<open>currentGroup\<close> is the
  last group of the list.
\<close>

record noteGroup =
  g_position :: int
  g_startBeat :: rat
  g_notes :: "note list"

definition groupNotesByPosition_step :: "int \<Rightarrow> note \<Rightarrow> noteGroup list \<Rightarrow> noteGroup list" where
  "groupNotesByPosition_step divisions n groups =
     (let position = js_round ((startBeat n - 1) * of_int divisions);
          fresh = \<lparr>g_position = position, g_startBeat = startBeat n, g_notes = [n]\<rparr>
      in if groups = [] then [fresh]
         else
           let currentGroup = last groups in
           if \<bar>of_int (position - g_position currentGroup)\<bar> > (of_int divisions :: rat) / 8
           then groups @ [fresh]
           else butlast groups @ [currentGroup\<lparr>g_notes := g_notes currentGroup @ [n]\<rparr>])"

definition groupNotesByPosition :: "note list \<Rightarrow> int \<Rightarrow> noteGroup list" where
  "groupNotesByPosition ns divisions = fold (groupNotesByPosition_step divisions) ns []"

text \<open>The notes of one group: the first as written, the others as chord members.\<close>

fun generateChordXML ::
  "note list \<Rightarrow> nat \<Rightarrow> int \<Rightarrow> int \<Rightarrow> int \<Rightarrow> string option \<Rightarrow> xml list \<Rightarrow> xml list result" where
  "generateChordXML [] noteIdx divisions vc stf stem acc = returns acc"
| "generateChordXML (n # ns) noteIdx divisions vc stf stem acc =
     andThen (generateNoteXML n divisions vc stf (noteIdx > 0) stem)
       (\<lambda>x. generateChordXML ns (Suc noteIdx) divisions vc stf stem (acc @ [x]))"

text \<open>
  The body of \<^verbatim>\<open>noteGroups.forEach\<close>; the loop variables are \<^verbatim>\<open>xml\<close>,
  \<^verbatim>\<open>totalDuration\<close> and \<^verbatim>\<open>currentPosition\<close>.
\<close>

definition voiceGroup_step ::
  "int \<Rightarrow> int \<Rightarrow> int \<Rightarrow> string option \<Rightarrow> noteGroup \<Rightarrow> xml list \<times> int \<times> int
     \<Rightarrow> (xml list \<times> int \<times> int) result" where
  "voiceGroup_step vc stf divisions stem grp = (\<lambda>(xs, totalDuration, currentPosition).
     let notePosition = js_round ((g_startBeat grp - 1) * of_int divisions) in
     andThen
       (if notePosition > currentPosition then
          (let gap = notePosition - currentPosition in
           andThen (generateRestsForDuration (of_int gap) vc stf divisions)
             (\<lambda>rs. returns (xs @ rs, totalDuration + gap, notePosition)))
        else returns (xs, totalDuration, currentPosition))
       (\<lambda>(xs, totalDuration, currentPosition).
          let noteDuration =
                js_round (of_int (ticksOrQuarter (hd (g_notes grp))) / 1024 * of_int divisions)
          in andThen (generateChordXML (g_notes grp) 0 divisions vc stf stem xs)
               (\<lambda>xs. returns (xs, totalDuration + noteDuration, notePosition + noteDuration))))"

text \<open>The result is the pair \<^verbatim>\<open>(xml, duration)\<close>.\<close>

definition generateVoiceXMLAligned ::
  "note list \<Rightarrow> int \<Rightarrow> int \<Rightarrow> int \<Rightarrow> int \<Rightarrow> string option \<Rightarrow> (xml list \<times> int) result" where
  "generateVoiceXMLAligned ns vc stf divisions measureDuration stem =
     (if ns = [] then returns ([generateFullMeasureRest vc stf measureDuration], measureDuration)
      else
        let sortedNotes = sortByStartBeat ns;
            noteGroups = groupNotesByPosition sortedNotes divisions
        in andThen (forEachResult (voiceGroup_step vc stf divisions stem) noteGroups ([], 0, 0))
             (\<lambda>(xs, totalDuration, currentPosition).
                if currentPosition < measureDuration then
                  (let restDuration = measureDuration - currentPosition in
                   andThen (generateRestsForDuration (of_int restDuration) vc stf divisions)
                     (\<lambda>rs. returns (xs @ rs, totalDuration + restDuration)))
                else returns (xs, totalDuration)))"

definition generateSingleStaffMeasureXML :: "note list \<Rightarrow> int \<Rightarrow> int \<Rightarrow> xml list result" where
  "generateSingleStaffMeasureXML ns divisions measureDuration =
     (if ns = [] then returns [generateFullMeasureRest 1 1 measureDuration]
      else andThen (generateVoiceXMLAligned ns 1 1 divisions measureDuration None)
             (\<lambda>r. returns (fst r)))"

definition inVoice :: "string \<Rightarrow> int \<Rightarrow> int \<Rightarrow> note \<Rightarrow> bool" where
  "inVoice vp stf vc n =
     (voicePart n = Some vp \<or> (staff n = stf \<and> voice n = vc \<and> \<not> truthy (voicePart n)))"

definition voiceXml ::
  "note list \<Rightarrow> int \<Rightarrow> int \<Rightarrow> int \<Rightarrow> int \<Rightarrow> string option \<Rightarrow> xml list result" where
  "voiceXml ns vc stf divisions measureDuration stem =
     andThen (generateVoiceXMLAligned ns vc stf divisions measureDuration stem)
       (\<lambda>r. returns (fst r))"

definition generateUpperStaffXML :: "note list \<Rightarrow> int \<Rightarrow> int \<Rightarrow> xml list result" where
  "generateUpperStaffXML ns divisions measureDuration =
     (let sopranoNs = filter (inVoice ''soprano'' 1 1) ns;
          altoNs = filter (inVoice ''alto'' 1 2) ns;
          upperNotes = (if sopranoNs \<noteq> [] \<or> altoNs \<noteq> [] then sopranoNs @ altoNs
                        else filter (\<lambda>n. staff n = 1) ns);
          hasSoprano = (sopranoNs \<noteq> [] \<or> (upperNotes \<noteq> [] \<and> altoNs = []));
          hasAlto = (altoNs \<noteq> [])
      in if hasSoprano \<or> hasAlto then
           andThen
             (if hasSoprano then
                voiceXml (if sopranoNs \<noteq> [] then sopranoNs else upperNotes) 1 1 divisions
                  measureDuration (if hasAlto then Some ''up'' else None)
              else returns [])
             (\<lambda>xs.
                if hasAlto then
                  andThen (voiceXml altoNs 2 1 divisions measureDuration (Some ''down''))
                    (\<lambda>ys. returns (xs @ [BackupXml measureDuration] @ ys))
                else returns xs)
         else returns [generateFullMeasureRest 1 1 measureDuration])"

definition generateLowerStaffXML :: "note list \<Rightarrow> int \<Rightarrow> int \<Rightarrow> xml list result" where
  "generateLowerStaffXML ns divisions measureDuration =
     (let tenorNs = filter (inVoice ''tenor'' 2 1) ns;
          bassNs = filter (inVoice ''bass'' 2 2) ns;
          lowerNotes = (if tenorNs \<noteq> [] \<or> bassNs \<noteq> [] then tenorNs @ bassNs
                        else filter (\<lambda>n. staff n = 2) ns);
          hasTenor = (tenorNs \<noteq> []);
          hasBass = (bassNs \<noteq> [] \<or> (lowerNotes \<noteq> [] \<and> tenorNs = []))
      in if hasTenor \<or> hasBass then
           andThen
             (if hasTenor then
                andThen (voiceXml tenorNs 3 2 divisions measureDuration
                           (if hasBass then Some ''up'' else None))
                  (\<lambda>xs. returns (if hasBass then xs @ [BackupXml measureDuration] else xs))
              else returns [])
             (\<lambda>xs.
                if hasBass then
                  andThen (voiceXml (if bassNs \<noteq> [] then bassNs else lowerNotes) 4 2 divisions
                             measureDuration (if hasTenor then Some ''down'' else None))
                    (\<lambda>ys. returns (xs @ ys))
                else returns xs)
         else returns [generateFullMeasureRest 3 2 measureDuration])"

definition generateGrandStaffMeasureXML :: "note list \<Rightarrow> int \<Rightarrow> int \<Rightarrow> xml list result" where
  "generateGrandStaffMeasureXML ns divisions measureDuration =
     andThen (generateUpperStaffXML ns divisions measureDuration)
       (\<lambda>upper. andThen (generateLowerStaffXML ns divisions measureDuration)
          (\<lambda>lower. returns (upper @ [BackupXml measureDuration] @ lower)))"

definition generateAttributesXML :: "scoreMetadata \<Rightarrow> int \<Rightarrow> string \<Rightarrow> xml" where
  "generateAttributesXML md divisions st =
     AttributesXml divisions (fifths (keySignature md)) (beats (timeSignature md))
       (beatType (timeSignature md)) (st = ''grand-staff'')"

definition generateMeasureXML ::
  "measure \<Rightarrow> bool \<Rightarrow> scoreMetadata \<Rightarrow> int \<Rightarrow> string \<Rightarrow> xml list result" where
  "generateMeasureXML m isFirst md divisions st =
     (let header = (if isFirst then
                      generateAttributesXML md divisions st
                        # (if tempo md \<noteq> 0 then [DirectionXml (tempo md)] else [])
                    else []);
          measureDuration = beats (timeSignature md) * divisions
      in andThen (if st = ''grand-staff''
                  then generateGrandStaffMeasureXML (notes m) divisions measureDuration
                  else generateSingleStaffMeasureXML (notes m) divisions measureDuration)
           (\<lambda>body. returns (header @ body)))"

text \<open>
  \<^verbatim>\<open>generateMusicXML\<close>, with \<^verbatim>\<open>const divisions = 256\<close>: the elements of every measure of
  the part, in order.
\<close>

fun generateMeasuresXML ::
  "(nat \<times> measure) list \<Rightarrow> scoreMetadata \<Rightarrow> string \<Rightarrow> xml list list \<Rightarrow> xml list list result" where
  "generateMeasuresXML [] md st acc = returns acc"
| "generateMeasuresXML ((index, m) # ms) md st acc =
     andThen (generateMeasureXML m (index = 0) md 256 st)
       (\<lambda>x. generateMeasuresXML ms md st (acc @ [x]))"

definition generateMusicXML :: "simplifiedScore \<Rightarrow> xml list list result" where
  "generateMusicXML score =
     generateMeasuresXML (enumerate 0 (measures score)) (metadata score) (scoreType score) []"

text \<open>
  What a reader of the exported measure adds up for one staff and voice: the durations of
  its notes that are not chord members and of its rests.
\<close>

fun voiceDuration :: "int \<Rightarrow> int \<Rightarrow> xml \<Rightarrow> int" where
  "voiceDuration stf vc (NoteXml isChord p d tie v ty dts tm stem s) =
     (if s = stf \<and> v = vc \<and> \<not> isChord then d else 0)"
| "voiceDuration stf vc (RestXml full d v ty s) = (if s = stf \<and> v = vc then d else 0)"
| "voiceDuration stf vc (BackupXml d) = 0"
| "voiceDuration stf vc (AttributesXml dv f b bt two) = 0"
| "voiceDuration stf vc (DirectionXml t) = 0"

definition serializedDuration :: "int \<Rightarrow> int \<Rightarrow> xml list \<Rightarrow> int" where
  "serializedDuration stf vc xs = sum_list (map (voiceDuration stf vc) xs)"

text \<open>The rest elements written for one voice.\<close>

fun isRestOf :: "int \<Rightarrow> xml \<Rightarrow> bool" where
  "isRestOf vc (RestXml full d v ty s) = (v = vc)"
| "isRestOf vc x = False"

fun isElementOf :: "int \<Rightarrow> xml \<Rightarrow> bool" where
  "isElementOf vc (RestXml full d v ty s) = (v = vc)"
| "isElementOf vc (NoteXml isChord p d tie v ty dts tm stem s) = (v = vc)"
| "isElementOf vc x = False"

section \<open>Descriptions used in the statements\<close>

text \<open>
  The beat groups of the rule tier, in the words of the specification: the
  non-embellishment notes whose start beat, rounded to the quarter-beat grid, is \<open>b\<close>; and
  the grid positions that occur, in ascending order.
\<close>

definition beatGroup :: "rat \<Rightarrow> note list \<Rightarrow> note list" where
  "beatGroup b ns = filter (\<lambda>n. quantizeBeat (startBeat n) = b) (filter isMain ns)"

definition groupBeats :: "note list \<Rightarrow> rat list" where
  "groupBeats ns = sorted_list_of_set ((\<lambda>n. quantizeBeat (startBeat n)) ` set (filter isMain ns))"

text \<open>
  Level 4 in the words of its three branches: whether a note is kept as it is, the key of
  the slot a shorter note falls into, and the note written for that slot.
\<close>

definition keptVerbatim :: "note \<Rightarrow> bool" where
  "keptVerbatim n = (isLocked n \<or> ticks (duration n) \<ge> 512)"

definition slotKey :: "note \<Rightarrow> posKey" where
  "slotKey n =
     (case tuplet (duration n) of
        Some tp \<Rightarrow> (''triplet_'', toFixed 3 (tripletPosition (actual tp) (startBeat n)))
      | None \<Rightarrow> (''eighth_'', toFixed 2 (eighthBeatPosition (startBeat n))))"

definition snapped :: "note \<Rightarrow> note" where
  "snapped n =
     (case tuplet (duration n) of Some tp \<Rightarrow> snapToTriplet tp n | None \<Rightarrow> snapToEighth n)"



text \<open>
  A note of the output is an unmodified input note when identifier, pitch, start beat,
  duration, tie and lock are those of the input note; staff, voice, voice part and the
  mark \<^verbatim>\<open>hadEmbellishment\<close> may differ.
\<close>

definition unmodified :: "note \<Rightarrow> note \<Rightarrow> bool" where
  "unmodified n' n =
     (note_id n' = note_id n \<and> pitch n' = pitch n \<and> startBeat n' = startBeat n
      \<and> duration n' = duration n \<and> tiedTo n' = tiedTo n \<and> isLocked n' = isLocked n
      \<and> lockReason n' = lockReason n)"

text \<open>What identifies a note in a listing: identifier, start beat, ticks and lock.\<close>

definition noteSummary :: "note \<Rightarrow> string \<times> rat \<times> int \<times> bool" where
  "noteSummary n = (note_id n, startBeat n, ticks (duration n), isLocked n)"


section \<open>Example scores\<close>

text \<open>
  The note that \<^verbatim>\<open>parseNote\<close> builds for an undotted, untied pitch without ornament:
  identifier, step, octave, start beat, duration type, ticks, staff and voice.
\<close>

definition mkNote ::
  "string \<Rightarrow> string \<Rightarrow> int \<Rightarrow> rat \<Rightarrow> string \<Rightarrow> int \<Rightarrow> int \<Rightarrow> int \<Rightarrow> note" where
  "mkNote i st oct sb ty tk stf vc =
     \<lparr>note_id = i,
      duration = \<lparr>type = ty, dots = 0, ticks = tk, tuplet = None\<rparr>,
      startBeat = sb, voice = vc, staff = stf,
      pitch = Some \<lparr>step = st, octave = oct, alter = 0\<rparr>,
      tiedTo = None, slurredWith = None, isLocked = False, lockReason = None,
      embellishment = None, voicePart = None, hadEmbellishment = None\<rparr>"

definition commonTime :: timeSignature where
  "commonTime = \<lparr>beats = 4, beatType = 4, ts_type = ''simple''\<rparr>"

definition exMetadata :: scoreMetadata where
  "exMetadata = \<lparr>title = ''Untitled'', composer = ''Unknown'', tempo = 120,
     timeSignature = commonTime, keySignature = \<lparr>fifths = 0, mode = ''major''\<rparr>,
     clefs = [''G2''], textAnnotations = []\<rparr>"

text \<open>A pickup measure: a grace note and one quarter note, then a full measure.\<close>

definition pickupMeasure :: measure where
  "pickupMeasure = \<lparr>number = 1,
     notes = [(mkNote ''note_1'' ''D'' 5 1 ''eighth'' 0 1 1)\<lparr>embellishment := Some ''grace_note''\<rparr>,
              mkNote ''note_2'' ''C'' 5 1 ''quarter'' 1024 1 1],
     rests = []\<rparr>"

definition fullMeasure :: measure where
  "fullMeasure = \<lparr>number = 2,
     notes = [mkNote ''note_3'' ''C'' 5 1 ''whole'' 4096 1 1],
     rests = []\<rparr>"

definition pickupScore :: analyzedScore where
  "pickupScore = \<lparr>metadata = exMetadata, measures = [pickupMeasure, fullMeasure],
     scoreType = ''single-staff'',
     voices = \<lparr>soprano = [], alto = [], tenor = [], bass = []\<rparr>,
     lockedNotes = [], strongBeats = [1, 3]\<rparr>"

definition level2Config :: simplificationConfig where
  "level2Config = \<lparr>sopranoLevel = None, bassLevel = None, mainLevel = Some 2\<rparr>"






text \<open>
  A measure in common time, as parsed with \<^verbatim>\<open><divisions>3</divisions>\<close>: an eighth-note
  triplet on the first beat (each note \<open>round (1024 / 3) = 341\<close> ticks) and three quarter
  notes.
\<close>

definition mkTriplet :: "string \<Rightarrow> string \<Rightarrow> rat \<Rightarrow> note" where
  "mkTriplet i st sb =
     (mkNote i st 5 sb ''eighth'' 341 1 1)
       \<lparr>duration := \<lparr>type = ''eighth'', dots = 0, ticks = 341,
                      tuplet = Some \<lparr>actual = 3, normal = 2\<rparr>\<rparr>\<rparr>"

definition tripletMeasure :: measure where
  "tripletMeasure = \<lparr>number = 1,
     notes = [mkTriplet ''note_1'' ''C'' 1, mkTriplet ''note_2'' ''D'' (4 / 3),
              mkTriplet ''note_3'' ''E'' (5 / 3),
              mkNote ''note_4'' ''F'' 5 2 ''quarter'' 1024 1 1,
              mkNote ''note_5'' ''E'' 5 3 ''quarter'' 1024 1 1,
              mkNote ''note_6'' ''D'' 5 4 ''quarter'' 1024 1 1],
     rests = []\<rparr>"

definition tripletScore :: analyzedScore where
  "tripletScore = \<lparr>metadata = exMetadata, measures = [tripletMeasure],
     scoreType = ''single-staff'',
     voices = \<lparr>soprano = [], alto = [], tenor = [], bass = []\<rparr>,
     lockedNotes = [], strongBeats = [1, 3]\<rparr>"

definition level5Config :: simplificationConfig where
  "level5Config = \<lparr>sopranoLevel = None, bassLevel = None, mainLevel = Some 5\<rparr>"





text \<open>The notes of an upper staff: the chord C5 and E5 on beat 1, a single G5 on beat 2.\<close>

definition upperChordNotes :: "note list" where
  "upperChordNotes = [mkNote ''note_1'' ''C'' 5 1 ''quarter'' 1024 1 1,
                      mkNote ''note_2'' ''E'' 5 1 ''quarter'' 1024 1 1,
                      mkNote ''note_3'' ''G'' 5 2 ''quarter'' 1024 1 1]"




text \<open>
  A parsed grand-staff score of one measure in common time: a whole note on the upper
  staff; on the lower staff a quarter note on beat 1, an eighth note on beat 2.5 and a half
  note on beat 3.
\<close>

definition offBeatMeasure :: measure where
  "offBeatMeasure = \<lparr>number = 1,
     notes = [mkNote ''note_1'' ''C'' 5 1 ''whole'' 4096 1 1,
              mkNote ''note_2'' ''C'' 3 1 ''quarter'' 1024 2 2,
              mkNote ''note_3'' ''D'' 3 (5 / 2) ''eighth'' 512 2 2,
              mkNote ''note_4'' ''E'' 3 3 ''half'' 2048 2 2],
     rests = []\<rparr>"

definition offBeatScore :: parsedScore where
  "offBeatScore = \<lparr>metadata = exMetadata, measures = [offBeatMeasure], rawXml = []\<rparr>"

definition level4Config :: simplificationConfig where
  "level4Config = \<lparr>sopranoLevel = None, bassLevel = None, mainLevel = Some 4\<rparr>"

section \<open>Verified properties\<close>

subsection \<open>Evaluating floors of rational numerals\<close>





subsection \<open>Level 5 is idempotent\<close>

lemma set_update_pred:
  assumes "\<forall>x \<in> set xs. P x" and "i < length xs \<Longrightarrow> P y"
  shows "\<forall>x \<in> set (xs[i := y]). P x"
proof (cases "i < length xs")
  case True
  then show ?thesis
    using assms set_update_subset_insert [of xs i y] by auto
next
  case False
  then have "xs[i := y] = xs" by (simp add: list_update_beyond)
  then show ?thesis using assms by simp
qed

lemma markEmbellishment_main:
  assumes "\<forall>n \<in> set ms. isMain n"
  shows "\<forall>n \<in> set (markEmbellishment e ms). isMain n"
proof (cases "nearestMain ms e")
  case None
  then show ?thesis using assms by (simp add: markEmbellishment_def)
next
  case (Some p)
  obtain i d where p: "p = (i, d)" by (cases p)
  have "i < length ms \<Longrightarrow> isMain ((ms ! i)\<lparr>hadEmbellishment := embellishment e\<rparr>)"
    using assms by (simp add: isMain_def)
  with assms have "\<forall>n \<in> set (ms[i := (ms ! i)\<lparr>hadEmbellishment := embellishment e\<rparr>]). isMain n"
    by (rule set_update_pred [where P = isMain])
  then show ?thesis using Some p by (simp add: markEmbellishment_def)
qed

lemma fold_markEmbellishment_main:
  "\<forall>n \<in> set ms. isMain n \<Longrightarrow> \<forall>n \<in> set (fold markEmbellishment es ms). isMain n"
proof (induction es arbitrary: ms)
  case Nil
  then show ?case by simp
next
  case (Cons e es)
  have "\<forall>n \<in> set (markEmbellishment e ms). isMain n"
    using Cons.prems by (rule markEmbellishment_main)
  from Cons.IH [OF this] show ?case by simp
qed

text \<open>
  Claim C8. Applying the Level-5 transform to its own result changes nothing: the second
  pass finds no embellishment to remove and no main note to mark, so the whole measure,
  and with it the note list, is the one the first pass returned.
\<close>

theorem applyLevel5_idempotent:
  "applyLevel5 (applyLevel5 m ts) ts' = applyLevel5 m ts
   \<and> notes (applyLevel5 (applyLevel5 m ts) ts') = notes (applyLevel5 m ts)"
proof -
  define ms where
    "ms = fold markEmbellishment (filter (\<lambda>n. \<not> isMain n) (notes m)) (filter isMain (notes m))"
  have once: "applyLevel5 m ts = m\<lparr>notes := ms\<rparr>"
    by (simp add: applyLevel5_def ms_def)
  have "\<forall>n \<in> set ms. isMain n"
    unfolding ms_def by (rule fold_markEmbellishment_main) simp
  then have keep: "filter isMain ms = ms" and drop: "filter (\<lambda>n. \<not> isMain n) ms = []"
    by (simp_all add: filter_id_conv filter_empty_conv)
  have "applyLevel5 (m\<lparr>notes := ms\<rparr>) ts' = m\<lparr>notes := ms\<rparr>"
    by (simp add: applyLevel5_def keep drop)
  then show ?thesis by (simp only: once)
qed

subsection \<open>Levels outside 1 to 5\<close>

text \<open>
  Claim C10. For a level that is none of 1, 2, 3, 4, 5 (another number, or
  \<^verbatim>\<open>undefined\<close>), both dispatchers return the measure they were given.
\<close>

theorem level_out_of_range_identity:
  "level \<notin> {Some 1, Some 2, Some 3, Some 4, Some 5} \<Longrightarrow>
     applySingleStaffSimplification m level ts = m \<and>
     applyGrandStaffSimplification m level ts cfg = m"
  by (simp add: applySingleStaffSimplification_def applyGrandStaffSimplification_def)

theorem level_out_of_range_identity_witness:
  "applySingleStaffSimplification fullMeasure (Some 6) commonTime = fullMeasure
   \<and> applyGrandStaffSimplification fullMeasure (Some 6) commonTime
        \<lparr>sopranoLevel = None, bassLevel = None\<rparr> = fullMeasure
   \<and> applySingleStaffSimplification fullMeasure None commonTime = fullMeasure
   \<and> applyGrandStaffSimplification fullMeasure (Some 0) commonTime
        \<lparr>sopranoLevel = None, bassLevel = None\<rparr> = fullMeasure"
  using level_out_of_range_identity [of "Some 6" fullMeasure commonTime
          "\<lparr>sopranoLevel = None, bassLevel = None\<rparr>"]
        level_out_of_range_identity [of None fullMeasure commonTime
          "\<lparr>sopranoLevel = None, bassLevel = None\<rparr>"]
        level_out_of_range_identity [of "Some 0" fullMeasure commonTime
          "\<lparr>sopranoLevel = None, bassLevel = None\<rparr>"]
  by simp

subsection \<open>The anacrusis measure\<close>

text \<open>
  Claim C3. When \<^verbatim>\<open>isAnacrusis\<close> holds of the first measure, the first measure of the
  simplified score is the input measure with its embellishment notes filtered out, for
  every configuration (so for every main level) and every score type: the notes that
  remain are the non-embellishment notes, unchanged and in their order, so their number
  and their start beats are those of the input.
\<close>

theorem anacrusis_measure_preserved:
  assumes "measures analyzed \<noteq> []"
    and "isAnacrusis (hd (measures analyzed)) (timeSignature (metadata analyzed))"
  shows "hd (measures (simplifyScore analyzed cfg))
           = (hd (measures analyzed))\<lparr>notes := filter isMain (notes (hd (measures analyzed)))\<rparr>
         \<and> notes (hd (measures (simplifyScore analyzed cfg)))
             = filter isMain (notes (hd (measures analyzed)))
         \<and> map startBeat (notes (hd (measures (simplifyScore analyzed cfg))))
             = map startBeat (filter isMain (notes (hd (measures analyzed))))"
proof -
  obtain m ms where ms: "measures analyzed = m # ms"
    using assms(1) by (cases "measures analyzed") auto
  have "hd (measures (simplifyScore analyzed cfg)) = preserveAnacrusis m"
    using assms(2) ms
    by (simp add: simplifyScore_def Let_def simplifyMeasure_def)
  then show ?thesis
    using ms by (simp add: preserveAnacrusis_def)
qed

theorem anacrusis_measure_preserved_witness:
  "isAnacrusis pickupMeasure commonTime
   \<and> notes (hd (measures (simplifyScore pickupScore level2Config)))
       = [mkNote ''note_2'' ''C'' 5 1 ''quarter'' 1024 1 1]"
proof -
  have ne: "measures pickupScore \<noteq> []"
    by (simp add: pickupScore_def)
  have ana: "isAnacrusis pickupMeasure commonTime"
    by (simp add: isAnacrusis_def pickupMeasure_def commonTime_def mkNote_def maxEndBeat_def
          endBeat_def)
  then have "isAnacrusis (hd (measures pickupScore)) (timeSignature (metadata pickupScore))"
    by (simp add: pickupScore_def exMetadata_def)
  from anacrusis_measure_preserved [OF ne this, of level2Config] ana
  show ?thesis
    by (simp add: pickupScore_def pickupMeasure_def isMain_def truthy_def mkNote_def)
qed

subsection \<open>The time cursor of the parser\<close>







subsection \<open>Metadata\<close>

text \<open>
  Claim C7. The metadata of the simplified score is the metadata of the parsed score, for
  every score type, configuration and level, whether or not the AI models are loaded; in
  particular title, composer, time signature and key signature are those of the parsed
  score.
\<close>

theorem metadata_round_trip:
  "metadata (simplifyScore (analyzeScore aiAvailable score st) cfg) = metadata score
   \<and> title (metadata (simplifyScore (analyzeScore aiAvailable score st) cfg))
       = title (metadata score)
   \<and> composer (metadata (simplifyScore (analyzeScore aiAvailable score st) cfg))
       = composer (metadata score)
   \<and> timeSignature (metadata (simplifyScore (analyzeScore aiAvailable score st) cfg))
       = timeSignature (metadata score)
   \<and> keySignature (metadata (simplifyScore (analyzeScore aiAvailable score st) cfg))
       = keySignature (metadata score)"
proof -
  have "metadata (analyzeScore aiAvailable score st) = metadata score"
    by (simp add: analyzeScore_def Let_def)
  then have "metadata (simplifyScore (analyzeScore aiAvailable score st) cfg) = metadata score"
    by (simp add: simplifyScore_def Let_def)
  then show ?thesis by simp
qed

subsection \<open>The exporter returns\<close>




lemma returns_eq [simp]: "returns a = returns b \<longleftrightarrow> a = b"
  by (simp add: returns_def)



















subsection \<open>Empty staves and empty voices\<close>




subsection \<open>Duration closure\<close>

text \<open>
  Claim C1 at a measure in common time that starts with an eighth-note triplet, simplified
  at Level 5 and exported. Each triplet note is written with duration
  \<open>round (341 / 1024 * 256) = 85\<close>; the third one is placed at position
  \<open>round (2 / 3 * 256) = 171\<close>, one division after the second ends, and a gap of one
  division is shorter than every rest value, so no rest is written for it. The durations
  written for staff 1, voice 1 add up to 1023, and \<open>beats * divisions\<close> is 1024.
\<close>

theorem triplet_export_duration:
  "map_option (map_sum id (map (serializedDuration 1 1)))
     (generateMusicXML (simplifyScore tripletScore level5Config)) = Some (Inr [1023])
   \<and> beats (timeSignature (metadata tripletScore)) * 256 = 1024"
  by code_simp

subsection \<open>Rule-tier voice separation\<close>

lemma map_of_groupInsert:
  "map_of (groupInsert k v g) k' =
     (if k' = k then Some (case map_of g k of None \<Rightarrow> [v] | Some vs \<Rightarrow> vs @ [v])
      else map_of g k')"
  by (induction g) (auto split: option.splits)

lemma keys_groupInsert:
  "map fst (groupInsert k v g) = (if k \<in> fst ` set g then map fst g else map fst g @ [k])"
  by (induction g) (auto split: if_splits)

lemma map_of_fold_groupInsert:
  "map_of (fold (\<lambda>n g. groupInsert (key n) n g) ns g0) b =
     (case map_of g0 b of
        None \<Rightarrow> (if filter (\<lambda>n. key n = b) ns = [] then None
                 else Some (filter (\<lambda>n. key n = b) ns))
      | Some vs \<Rightarrow> Some (vs @ filter (\<lambda>n. key n = b) ns))"
proof (induction ns arbitrary: g0)
  case Nil
  then show ?case by (simp split: option.splits)
next
  case (Cons n ns)
  show ?case
    by (simp add: Cons.IH map_of_groupInsert split: option.splits)
qed

lemma keys_fold_groupInsert:
  "distinct (map fst g0) \<Longrightarrow>
     distinct (map fst (fold (\<lambda>n g. groupInsert (key n) n g) ns g0))
     \<and> set (map fst (fold (\<lambda>n g. groupInsert (key n) n g) ns g0)) = fst ` set g0 \<union> key ` set ns"
proof (induction ns arbitrary: g0)
  case Nil
  then show ?case by simp
next
  case (Cons n ns)
  have d: "distinct (map fst (groupInsert (key n) n g0))"
    using Cons.prems by (simp add: keys_groupInsert)
  have s: "fst ` set (groupInsert (key n) n g0) = insert (key n) (fst ` set g0)"
    using keys_groupInsert [of "key n" n g0]
    by (metis (no_types, lifting) Un_insert_right insert_absorb list.set(1) list.set(2) set_append set_map sup_bot.right_neutral)
  show ?case
    using Cons.IH [OF d] s by auto
qed


lemma map_of_groupNotesByBeat:
  "map_of (groupNotesByBeat ms) b =
     (if filter (\<lambda>n. quantizeBeat (startBeat n) = b) ms = [] then None
      else Some (filter (\<lambda>n. quantizeBeat (startBeat n) = b) ms))"
  unfolding groupNotesByBeat_def
  using map_of_fold_groupInsert [of "\<lambda>n. quantizeBeat (startBeat n)" ms "[]" b] by simp

lemma keys_groupNotesByBeat:
  "sort (map fst (groupNotesByBeat ms))
     = sorted_list_of_set ((\<lambda>n. quantizeBeat (startBeat n)) ` set ms)"
proof -
  have "distinct (map fst (groupNotesByBeat ms))"
    and "set (map fst (groupNotesByBeat ms)) = (\<lambda>n. quantizeBeat (startBeat n)) ` set ms"
    unfolding groupNotesByBeat_def
    using keys_fold_groupInsert [of "[]" "\<lambda>n. quantizeBeat (startBeat n)" ms] by simp_all
  then show ?thesis
    by (metis distinct_remdups_id sorted_list_of_set_sort_remdups)
qed

lemma fold_voiceLines:
  assumes "\<forall>b \<in> set bs. map_of beatGroups b = Some (grp b) \<and> grp b \<noteq> []"
  shows "fold (voiceLines_step bassFirst beatGroups) bs (p, s)
           = (p @ map (\<lambda>b. hd (sortByPitch bassFirst (grp b))) bs,
              s @ concat (map (\<lambda>b. tl (sortByPitch bassFirst (grp b))) bs))"
  using assms
proof (induction bs arbitrary: p s)
  case Nil
  then show ?case by simp
next
  case (Cons b bs)
  have step: "voiceLines_step bassFirst beatGroups b (p, s)
                = (p @ [hd (sortByPitch bassFirst (grp b))], s @ tl (sortByPitch bassFirst (grp b)))"
    using Cons.prems by (simp add: voiceLines_step_def Let_def)
  have rest: "\<forall>b \<in> set bs. map_of beatGroups b = Some (grp b) \<and> grp b \<noteq> []"
    using Cons.prems by simp
  show ?case
    by (simp add: step Cons.IH [OF rest])
qed

lemma groupBeats_member:
  "b \<in> set (groupBeats ns) \<longleftrightarrow> beatGroup b ns \<noteq> []"
  by (auto simp: groupBeats_def beatGroup_def filter_empty_conv)

lemma extractVoicesByPitch_groups:
  "extractVoicesByPitch ns bassFirst
     = (map (\<lambda>b. hd (sortByPitch bassFirst (beatGroup b ns))) (groupBeats ns),
        concat (map (\<lambda>b. tl (sortByPitch bassFirst (beatGroup b ns))) (groupBeats ns)))"
proof (cases "filter isMain ns = []")
  case True
  then have "groupBeats ns = []" by (simp add: groupBeats_def)
  then show ?thesis using True by (simp add: extractVoicesByPitch_def)
next
  case False
  then have ne: "ns \<noteq> []" by auto
  define ms where "ms = filter isMain ns"
  have keys: "sort (map fst (groupNotesByBeat ms)) = groupBeats ns"
    by (simp add: keys_groupNotesByBeat groupBeats_def ms_def)
  have "\<forall>b \<in> set (groupBeats ns).
          map_of (groupNotesByBeat ms) b = Some (beatGroup b ns) \<and> beatGroup b ns \<noteq> []"
    by (simp add: groupBeats_member map_of_groupNotesByBeat beatGroup_def ms_def)
  from fold_voiceLines [of "groupBeats ns" "groupNotesByBeat ms" "\<lambda>b. beatGroup b ns", OF this]
  show ?thesis
    using False ne by (simp add: extractVoicesByPitch_def Let_def ms_def [symmetric] keys)
qed

lemma hd_sort_key_least:
  assumes "xs \<noteq> []"
  shows "hd (sort_key f xs) \<in> set xs \<and> (\<forall>x \<in> set xs. f (hd (sort_key f xs)) \<le> f x)"
proof -
  obtain y ys where ys: "sort_key f xs = y # ys"
    using assms by (cases "sort_key f xs") (auto dest: arg_cong [where f = length])
  have "sorted (map f (y # ys))" by (metis ys sorted_sort_key)
  then have "\<forall>x \<in> set (y # ys). f y \<le> f x" by auto
  moreover have "set (y # ys) = set xs" by (metis ys set_sort)
  ultimately show ?thesis using ys by auto
qed

lemma primary_is_extreme:
  assumes "g \<noteq> []"
  shows "hd (sortByPitch bassFirst g) \<in> set g
       \<and> (\<forall>n \<in> set g. if bassFirst
            then pitchToMidi (pitch (hd (sortByPitch bassFirst g))) \<le> pitchToMidi (pitch n)
            else pitchToMidi (pitch n) \<le> pitchToMidi (pitch (hd (sortByPitch bassFirst g))))"
  using hd_sort_key_least [OF assms, of "\<lambda>n. if bassFirst then pitchToMidi (pitch n) else - pitchToMidi (pitch n)"]
  by (auto simp: sortByPitch_def)


text \<open>
  Claim C6, as the code has it. \<^verbatim>\<open>separateVoices\<close> groups the non-embellishment notes of
  a staff by start beat rounded to the quarter-beat grid and visits the groups in ascending
  order of beat. In every group the first note in pitch order (highest on the upper staff,
  lowest on the lower staff; the earlier note among equal pitches) goes to the primary voice,
  soprano or bass, and all other notes of the group go to the secondary voice, alto or
  tenor. A group of a single note gives that note to the primary voice and nothing to the
  secondary voice.
\<close>

theorem rule_tier_voice_separation:
  "soprano (separateVoices upper lower)
     = map (\<lambda>b. withVoicePart ''soprano'' (hd (sortByPitch False (beatGroup b upper))))
         (groupBeats upper)
   \<and> alto (separateVoices upper lower)
     = concat (map (\<lambda>b. map (withVoicePart ''alto'') (tl (sortByPitch False (beatGroup b upper))))
         (groupBeats upper))
   \<and> bass (separateVoices upper lower)
     = map (\<lambda>b. withVoicePart ''bass'' (hd (sortByPitch True (beatGroup b lower))))
         (groupBeats lower)
   \<and> tenor (separateVoices upper lower)
     = concat (map (\<lambda>b. map (withVoicePart ''tenor'') (tl (sortByPitch True (beatGroup b lower))))
         (groupBeats lower))
   \<and> (\<forall>b \<in> set (groupBeats ns).
         beatGroup b ns \<noteq> []
         \<and> hd (sortByPitch bassFirst (beatGroup b ns)) \<in> set (beatGroup b ns)
         \<and> mset (hd (sortByPitch bassFirst (beatGroup b ns))
                   # tl (sortByPitch bassFirst (beatGroup b ns))) = mset (beatGroup b ns)
         \<and> (\<forall>n \<in> set (beatGroup b ns).
               if bassFirst
               then pitchToMidi (pitch (hd (sortByPitch bassFirst (beatGroup b ns))))
                      \<le> pitchToMidi (pitch n)
               else pitchToMidi (pitch n)
                      \<le> pitchToMidi (pitch (hd (sortByPitch bassFirst (beatGroup b ns))))))
   \<and> (beatGroup b ns = [n] \<longrightarrow>
         hd (sortByPitch bassFirst (beatGroup b ns)) = n
         \<and> tl (sortByPitch bassFirst (beatGroup b ns)) = [])"
proof -
  have lines: "soprano (separateVoices upper lower)
     = map (\<lambda>b. withVoicePart ''soprano'' (hd (sortByPitch False (beatGroup b upper))))
         (groupBeats upper)
   \<and> alto (separateVoices upper lower)
     = concat (map (\<lambda>b. map (withVoicePart ''alto'') (tl (sortByPitch False (beatGroup b upper))))
         (groupBeats upper))
   \<and> bass (separateVoices upper lower)
     = map (\<lambda>b. withVoicePart ''bass'' (hd (sortByPitch True (beatGroup b lower))))
         (groupBeats lower)
   \<and> tenor (separateVoices upper lower)
     = concat (map (\<lambda>b. map (withVoicePart ''tenor'') (tl (sortByPitch True (beatGroup b lower))))
         (groupBeats lower))"
    by (simp add: separateVoices_def Let_def extractVoicesByPitch_groups map_concat comp_def)
  have groups: "beatGroup b ns \<noteq> []
         \<and> hd (sortByPitch bassFirst (beatGroup b ns)) \<in> set (beatGroup b ns)
         \<and> mset (hd (sortByPitch bassFirst (beatGroup b ns))
                   # tl (sortByPitch bassFirst (beatGroup b ns))) = mset (beatGroup b ns)
         \<and> (\<forall>n \<in> set (beatGroup b ns).
               if bassFirst
               then pitchToMidi (pitch (hd (sortByPitch bassFirst (beatGroup b ns))))
                      \<le> pitchToMidi (pitch n)
               else pitchToMidi (pitch n)
                      \<le> pitchToMidi (pitch (hd (sortByPitch bassFirst (beatGroup b ns)))))"
    if "b \<in> set (groupBeats ns)" for b
  proof -
    have ne: "beatGroup b ns \<noteq> []" using that by (simp add: groupBeats_member)
    then have "sortByPitch bassFirst (beatGroup b ns) \<noteq> []"
      unfolding sortByPitch_def by (metis length_0_conv length_sort)
    then have "mset (hd (sortByPitch bassFirst (beatGroup b ns))
                   # tl (sortByPitch bassFirst (beatGroup b ns))) = mset (beatGroup b ns)"
      by (simp add: sortByPitch_def)
    then show ?thesis using ne primary_is_extreme [OF ne, of bassFirst] by blast
  qed
  have single: "beatGroup b ns = [n] \<longrightarrow>
         hd (sortByPitch bassFirst (beatGroup b ns)) = n
         \<and> tl (sortByPitch bassFirst (beatGroup b ns)) = []"
    by (simp add: sortByPitch_def)
  from lines groups single show ?thesis by blast
qed

theorem rule_tier_voice_separation_witness:
  "1 \<in> set (groupBeats upperChordNotes)
   \<and> beatGroup 2 upperChordNotes = [mkNote ''note_3'' ''G'' 5 2 ''quarter'' 1024 1 1]
   \<and> soprano (separateVoices upperChordNotes [])
       = [withVoicePart ''soprano'' (mkNote ''note_2'' ''E'' 5 1 ''quarter'' 1024 1 1),
          withVoicePart ''soprano'' (mkNote ''note_3'' ''G'' 5 2 ''quarter'' 1024 1 1)]
   \<and> alto (separateVoices upperChordNotes [])
       = [withVoicePart ''alto'' (mkNote ''note_1'' ''C'' 5 1 ''quarter'' 1024 1 1)]"
proof -
  have beats: "groupBeats upperChordNotes = [1, 2]"
    by code_simp
  have g1: "sortByPitch False (beatGroup 1 upperChordNotes)
              = [mkNote ''note_2'' ''E'' 5 1 ''quarter'' 1024 1 1,
                 mkNote ''note_1'' ''C'' 5 1 ''quarter'' 1024 1 1]"
    by code_simp
  have g2: "beatGroup 2 upperChordNotes = [mkNote ''note_3'' ''G'' 5 2 ''quarter'' 1024 1 1]"
    by code_simp
  show ?thesis
    using rule_tier_voice_separation
            [of upperChordNotes "[]" upperChordNotes False 2
               "mkNote ''note_3'' ''G'' 5 2 ''quarter'' 1024 1 1"]
          beats g1 g2
    by simp
qed

text \<open>
  Claim C6 as stated fails for single-note groups: \<^verbatim>\<open>separateVoices\<close> has no pending
  list, and a note alone on its beat becomes a soprano note.
\<close>

theorem single_note_group_counterexample:
  "soprano (separateVoices [mkNote ''note_3'' ''G'' 5 2 ''quarter'' 1024 1 1] [])
     = [withVoicePart ''soprano'' (mkNote ''note_3'' ''G'' 5 2 ''quarter'' 1024 1 1)]
   \<and> alto (separateVoices [mkNote ''note_3'' ''G'' 5 2 ''quarter'' 1024 1 1] []) = []"
  by code_simp

subsection \<open>Level 4\<close>

lemma level4_step_alt:
  "level4_step n (r, P) =
     (if keptVerbatim n then (r @ [n], P)
      else if slotKey n \<notin> P then (r @ [snapped n], insert (slotKey n) P)
      else (r, P))"
  by (auto simp: level4_step_def keptVerbatim_def slotKey_def snapped_def Let_def
      split: option.splits)




lemma level4_fold_keys_grow:
  "P \<subseteq> snd (fold level4_step xs (r, P))"
proof (induction xs arbitrary: r P)
  case Nil
  then show ?case by simp
next
  case (Cons n xs)
  show ?case
    using Cons.IH [of P "r @ [n]"] Cons.IH [of "insert (slotKey n) P" "r @ [snapped n]"]
      Cons.IH [of P r]
    by (auto simp: level4_step_alt)
qed














end
